theory Spec2Isabelle
  imports Main
begin

section \<open>The pre-build hook of build\_extra.py\<close>

text \<open>
  The script \<^verbatim>\<open>scripts/build_extra.py\<close> defines one callback,
  \<^verbatim>\<open>embed_html_callback\<close>, and registers it with the build environment. The callback
  prints a banner, derives two directories from the script's own location, runs
  \<^verbatim>\<open>python3 embed_html.py\<close> as a child process and prints what the child reported.

  Everything the callback does beyond computing paths is an effect: a call of
  \<^verbatim>\<open>print\<close> or a call of \<^verbatim>\<open>subprocess.run\<close>. The model records the effects in
  a trace that is passed in and returned. What the surroundings decide is a parameter:
  whether the module global \<^verbatim>\<open>__file__\<close> is bound, what the operating system answers
  to \<^verbatim>\<open>subprocess.run\<close>, and which texts the console refuses to print.
\<close>

subsection \<open>Pure POSIX paths, as pathlib computes them\<close>

text \<open>
  \<^verbatim>\<open>pathlib\<close> belongs to Python's standard library, not to this repository. The three
  operations the script uses are modelled after the library's POSIX flavour: a path is a
  root (empty, one slash, or two slashes) and a list of components.
\<close>

record pure_path =
  anchor :: string
  tail :: "string list"

text \<open>\<^verbatim>\<open>str.split(sep)\<close> for a one-character separator.\<close>

fun split_sep :: "char \<Rightarrow> string \<Rightarrow> string list" where
  "split_sep c [] = [[]]"
| "split_sep c (x # xs) =
     (if x = c then [] # split_sep c xs
      else (case split_sep c xs of
              [] \<Rightarrow> [[x]]
            | w # ws \<Rightarrow> (x # w) # ws))"

text \<open>\<^verbatim>\<open>sep.join(parts)\<close>.\<close>

fun join_sep :: "string \<Rightarrow> string list \<Rightarrow> string" where
  "join_sep s [] = []"
| "join_sep s [w] = w"
| "join_sep s (w # v # ws) = w @ s @ join_sep s (v # ws)"

text \<open>
  \<^verbatim>\<open>posixpath.splitroot\<close>: no leading slash gives no root; exactly two leading
  slashes give the root \<^verbatim>\<open>//\<close>; one, or three and more, give the root \<^verbatim>\<open>/\<close>.
\<close>

definition splitroot :: "string \<Rightarrow> string \<times> string" where
  "splitroot p =
     (if take 1 p \<noteq> ''/'' then ([], p)
      else if take 1 (drop 1 p) \<noteq> ''/'' \<or> take 1 (drop 2 p) = ''/'' then (''/'', drop 1 p)
      else (''//'', drop 2 p))"

text \<open>\<^verbatim>\<open>Path(s)\<close>: the root is split off, empty components and \<^verbatim>\<open>.\<close> are dropped.\<close>

definition Path :: "string \<Rightarrow> pure_path" where
  "Path s =
     (case splitroot s of
        (r, rel) \<Rightarrow>
          \<lparr>anchor = r,
           tail = filter (\<lambda>x. x \<noteq> [] \<and> x \<noteq> ''.'') (split_sep CHR ''/'' rel)\<rparr>)"

text \<open>\<^verbatim>\<open>str(p)\<close>: the empty relative path is written \<^verbatim>\<open>.\<close>.\<close>

definition str_path :: "pure_path \<Rightarrow> string" where
  "str_path p =
     (if anchor p = [] \<and> tail p = [] then ''.''
      else anchor p @ join_sep ''/'' (tail p))"

text \<open>\<^verbatim>\<open>p.parent\<close>: a path with no component is its own parent.\<close>

definition parent :: "pure_path \<Rightarrow> pure_path" where
  "parent p = (if tail p = [] then p else p\<lparr>tail := butlast (tail p)\<rparr>)"

text \<open>\<^verbatim>\<open>p / key\<close>: a rooted key replaces \<open>p\<close>, any other key is appended.\<close>

definition truediv :: "pure_path \<Rightarrow> string \<Rightarrow> pure_path" where
  "truediv p key =
     (let q = Path key
      in if anchor q \<noteq> [] then q else p\<lparr>tail := tail p @ tail q\<rparr>)"

subsection \<open>Texts and exceptions\<close>

text \<open>
  A Python string is a list of characters, a character standing for a code point below
  256; the characters below 128 are ASCII.
\<close>

definition is_ascii :: "char \<Rightarrow> bool" where
  "is_ascii c \<longleftrightarrow> of_char c < (128 :: nat)"

text \<open>
  The text \<^verbatim>\<open>str(e)\<close> of an exception is ASCII: Python writes the characters it
  cannot encode or decode as escapes, and the messages of the operating system are those
  of the C locale.
\<close>

typedef ascii_text = "{s :: string. list_all is_ascii s}"
  by (rule exI [of _ "[]"]) simp

setup_lifting type_definition_ascii_text

lift_definition to_ascii :: "string \<Rightarrow> ascii_text" is "filter is_ascii"
  by (simp add: list_all_iff)

lift_definition text_of :: "ascii_text \<Rightarrow> string" is "\<lambda>s. s" .

text \<open>
  A raised exception carries its class and its text. For the handler
  \<^verbatim>\<open>except Exception\<close> the one thing that matters about the class is whether it derives
  from \<^verbatim>\<open>Exception\<close> (as \<^verbatim>\<open>FileNotFoundError\<close>, \<^verbatim>\<open>NameError\<close> and
  \<^verbatim>\<open>UnicodeEncodeError\<close> do) or only from \<^verbatim>\<open>BaseException\<close> (as
  \<^verbatim>\<open>KeyboardInterrupt\<close> and \<^verbatim>\<open>SystemExit\<close> do).
\<close>

datatype exc_class = ExceptionSubclass string | BaseExceptionOnly string

datatype py_exception = PyExc (exc_cls: exc_class) (exc_text: ascii_text)

definition str_e :: "py_exception \<Rightarrow> string" where
  "str_e e = text_of (exc_text e)"

fun isinstance_Exception :: "py_exception \<Rightarrow> bool" where
  "isinstance_Exception (PyExc (ExceptionSubclass n) m) = True"
| "isinstance_Exception (PyExc (BaseExceptionOnly n) m) = False"

text \<open>Reading the global \<^verbatim>\<open>__file__\<close> when the module has none.\<close>

definition NameError_file :: py_exception where
  "NameError_file =
     PyExc (ExceptionSubclass ''NameError'') (to_ascii ''name '__file__' is not defined'')"

subsection \<open>Child processes, the console and effects\<close>

text \<open>
  What \<^verbatim>\<open>subprocess.run(..., capture_output=True, text=True)\<close> gives back: a completed
  process with its return code and both captured streams, or an exception.
\<close>

datatype run_result =
    CompletedProcess (returncode: int) (stdout: string) (stderr: string)
  | RunRaises py_exception

text \<open>The operating system, as far as the callback sees it: command and directory in, result out.\<close>

type_synonym subprocess_run = "string list \<Rightarrow> string \<Rightarrow> run_result"

text \<open>
  The console says, for a text, whether writing it raises (an ASCII console raises
  \<^verbatim>\<open>UnicodeEncodeError\<close> on a text with a character beyond ASCII). Every console
  prints ASCII text.
\<close>

type_synonym console = "string \<Rightarrow> py_exception option"

definition print_raises :: "console \<Rightarrow> string \<Rightarrow> py_exception option" where
  "print_raises con s = (if list_all is_ascii s then None else con s)"

text \<open>
  An effect is a call of \<^verbatim>\<open>print\<close> that wrote the text of its argument, or a call of
  \<^verbatim>\<open>subprocess.run\<close> with the command, the two flags and the working directory.
\<close>

datatype event =
    Print string
  | SubprocessRun (run_args: "string list") (capture_output: bool) (text_mode: bool) (cwd: string)

text \<open>
  A statement ends normally (\<open>Inr ()\<close>) or with an exception (\<open>Inl e\<close>), and leaves a
  trace. \<^verbatim>\<open>print(s)\<close> writes \<open>s\<close>, or raises and writes nothing.
\<close>

type_synonym outcome = "(py_exception + unit) \<times> event list"

definition py_print :: "console \<Rightarrow> string \<Rightarrow> event list \<Rightarrow> outcome" where
  "py_print con s tr =
     (case print_raises con s of
        None \<Rightarrow> (Inr (), tr @ [Print s])
      | Some e \<Rightarrow> (Inl e, tr))"

fun is_run :: "event \<Rightarrow> bool" where
  "is_run (SubprocessRun a c t d) = True"
| "is_run (Print s) = False"

fun is_print :: "event \<Rightarrow> bool" where
  "is_print (Print s) = True"
| "is_print (SubprocessRun a c t d) = False"

subsection \<open>The callback\<close>

text \<open>
  The body of the \<^verbatim>\<open>try\<close> (lines 22 to 30): the child is run, and its standard output
  is printed when it exited with 0, its standard error behind a fixed prefix otherwise.
  An exception of \<^verbatim>\<open>subprocess.run\<close> or of either \<^verbatim>\<open>print\<close> ends the body.
\<close>

definition run_and_report ::
  "subprocess_run \<Rightarrow> console \<Rightarrow> string list \<Rightarrow> string \<Rightarrow> event list \<Rightarrow> outcome" where
  "run_and_report run con cmd dir tr =
     (let tr' = tr @ [SubprocessRun cmd True True dir]
      in case run cmd dir of
           RunRaises e \<Rightarrow> (Inl e, tr')
         | CompletedProcess rc out err \<Rightarrow>
             if rc = 0 then py_print con out tr'
             else py_print con (''Error running embed script: '' @ err) tr')"

text \<open>
  The handler (lines 32 and 33): \<^verbatim>\<open>except Exception as e\<close> takes the exceptions that
  are instances of \<^verbatim>\<open>Exception\<close> and prints their text; any other exception goes on.
\<close>

definition except_Exception :: "console \<Rightarrow> outcome \<Rightarrow> outcome" where
  "except_Exception con res =
     (case res of
        (Inr u, tr) \<Rightarrow> (Inr u, tr)
      | (Inl e, tr) \<Rightarrow>
          if isinstance_Exception e
          then py_print con (''Failed to run HTML embedding script: '' @ str_e e) tr
          else (Inl e, tr))"

text \<open>
  \<^verbatim>\<open>embed_html_callback(*args, **kwargs)\<close>. The parameters are the positional and keyword
  arguments, the binding of the module global \<^verbatim>\<open>__file__\<close> (\<open>None\<close> when the module has
  none, as for a script that the build tool executes without setting it), the operating
  system, the console, and the trace so far. The result is \<open>Inr ()\<close> when the callback
  returns (\<^verbatim>\<open>None\<close>) and \<open>Inl e\<close> when the exception \<open>e\<close> leaves it.

  The statements follow the source in order: the banner (line 14) and the three path
  computations (lines 17 to 19, the first of which reads \<^verbatim>\<open>__file__\<close>) stand before
  the \<^verbatim>\<open>try\<close>, so an exception there leaves the callback. Paths are POSIX paths.
\<close>

definition embed_html_callback ::
  "'a list \<Rightarrow> (string \<times> 'a) list \<Rightarrow> string option \<Rightarrow> subprocess_run \<Rightarrow> console
     \<Rightarrow> event list \<Rightarrow> outcome" where
  "embed_html_callback args kwargs file run con tr0 =
     (case py_print con ''Running HTML embedding script...'' tr0 of
        (Inl e, tr1) \<Rightarrow> (Inl e, tr1)
      | (Inr u, tr1) \<Rightarrow>
          (case file of
             None \<Rightarrow> (Inl NameError_file, tr1)
           | Some f \<Rightarrow>
               (let script_dir = parent (Path f);
                    project_root = parent script_dir;
                    embed_script = truediv script_dir ''embed_html.py''
                in except_Exception con
                     (run_and_report run con [''python3'', str_path embed_script]
                        (str_path project_root) tr1))))"

text \<open>The command and the directory the callback hands to \<^verbatim>\<open>subprocess.run\<close>.\<close>

definition embed_cmd :: "string \<Rightarrow> string list" where
  "embed_cmd f = [''python3'', str_path (truediv (parent (Path f)) ''embed_html.py'')]"

definition embed_cwd :: "string \<Rightarrow> string" where
  "embed_cwd f = str_path (parent (parent (Path f)))"

subsection \<open>The build environment and the module body\<close>

text \<open>
  The build environment is SCons's, imported by \<^verbatim>\<open>Import("env")\<close>; of it the model keeps
  the actions registered to run before and after a target is built.
  \<^verbatim>\<open>env.AddPreAction(target, action)\<close> appends to the former.
\<close>

record 'f scons_env =
  pre_actions :: "(string \<times> 'f) list"
  post_actions :: "(string \<times> 'f) list"

definition AddPreAction :: "string \<Rightarrow> 'f \<Rightarrow> 'f scons_env \<Rightarrow> 'f scons_env" where
  "AddPreAction target action env = env\<lparr>pre_actions := pre_actions env @ [(target, action)]\<rparr>"

type_synonym 'a action =
  "'a list \<Rightarrow> (string \<times> 'a) list \<Rightarrow> string option \<Rightarrow> subprocess_run \<Rightarrow> console
     \<Rightarrow> event list \<Rightarrow> outcome"

text \<open>
  Evaluating the module: the imports and the \<^verbatim>\<open>def\<close> have no effect on the environment
  or the trace; the last statement registers the callback.
\<close>

definition build_extra :: "'a action scons_env \<times> event list \<Rightarrow> 'a action scons_env \<times> event list" where
  "build_extra st =
     (case st of (env, tr) \<Rightarrow> (AddPreAction ''buildprog'' embed_html_callback env, tr))"

subsection \<open>Auxiliary notions\<close>

text \<open>The effects an invocation adds to the trace it was given.\<close>

definition emitted :: "event list \<Rightarrow> outcome \<Rightarrow> event list" where
  "emitted tr0 res = drop (length tr0) (snd res)"

text \<open>
  The paths \<^verbatim>\<open>Path\<close> produces: one of the three roots, and components that are not
  empty, are not \<^verbatim>\<open>.\<close> and hold no slash.
\<close>

definition name_ok :: "string \<Rightarrow> bool" where
  "name_ok w \<longleftrightarrow> w \<noteq> [] \<and> w \<noteq> ''.'' \<and> CHR ''/'' \<notin> set w"

definition wf_path :: "pure_path \<Rightarrow> bool" where
  "wf_path p \<longleftrightarrow>
     (anchor p = [] \<or> anchor p = ''/'' \<or> anchor p = ''//'') \<and> list_all name_ok (tail p)"

text \<open>
  Concrete surroundings for the worked examples: a location of the script, answers of
  the operating system (a child that succeeds, one that fails, one whose output holds the
  letter e with an acute accent, an interpreter that is not installed, a build
  interrupted from the keyboard), and two consoles.
\<close>

definition this_file :: string where
  "this_file = ''/home/dev/WiFiProvisioner/scripts/build_extra.py''"

definition run_ok :: subprocess_run where
  "run_ok cmd dir = CompletedProcess 0 ''ok'' []"

definition run_ok_noisy :: subprocess_run where
  "run_ok_noisy cmd dir = CompletedProcess 0 ''ok'' ''warning''"

definition run_bad :: subprocess_run where
  "run_bad cmd dir = CompletedProcess 1 [] ''bad''"

definition run_bad_chatty :: subprocess_run where
  "run_bad_chatty cmd dir = CompletedProcess 1 ''partial'' ''bad''"

definition run_ok_accent :: subprocess_run where
  "run_ok_accent cmd dir = CompletedProcess 0 [CHR ''c'', CHR ''a'', CHR ''f'', CHR 0xE9] []"

definition run_bad_accent :: subprocess_run where
  "run_bad_accent cmd dir = CompletedProcess 1 [] [CHR ''c'', CHR ''a'', CHR ''f'', CHR 0xE9]"



text \<open>A system on which only the embedding script, started in the project root, succeeds.\<close>

definition run_only_embed :: subprocess_run where
  "run_only_embed cmd dir =
     (if cmd = [''python3'', ''/home/dev/WiFiProvisioner/scripts/embed_html.py''] \<and>
         dir = ''/home/dev/WiFiProvisioner''
      then CompletedProcess 0 ''ok'' []
      else RunRaises (PyExc (ExceptionSubclass ''FileNotFoundError'')
                        (to_ascii ''[Errno 2] No such file or directory'')))"

text \<open>A console that prints every text, and one that encodes ASCII only.\<close>

definition console_utf8 :: console where
  "console_utf8 s = None"

definition digit_char :: "nat \<Rightarrow> char" where
  "digit_char d = ''0123456789abcdef'' ! d"

fun decimal :: "nat \<Rightarrow> string" where
  "decimal n = (if n < 10 then [digit_char n] else decimal (n div 10) @ [digit_char (n mod 10)])"

definition hex2 :: "char \<Rightarrow> string" where
  "hex2 c = [digit_char (of_char c div 16), digit_char (of_char c mod 16)]"

text \<open>
  The text of the \<^verbatim>\<open>UnicodeEncodeError\<close> of the ASCII codec: it names the first run of
  characters beyond ASCII, by escape and position when the run is one character long, by
  its first and last position otherwise.
\<close>

definition ascii_codec_message :: "string \<Rightarrow> string" where
  "ascii_codec_message s =
     (let p = length (takeWhile is_ascii s);
          bad = takeWhile (\<lambda>c. \<not> is_ascii c) (drop p s)
      in CHR 0x27 # ''ascii' codec can't encode character'' @
         (if length bad = 1
          then '' '' @ [CHR 0x27, CHR 0x5C] @ ''x'' @ hex2 (hd bad) @ [CHR 0x27] @
               '' in position '' @ decimal p
          else ''s in position '' @ decimal p @ ''-'' @ decimal (p + length bad - 1)) @
         '': ordinal not in range(128)'')"

definition console_ascii :: console where
  "console_ascii s =
     (if list_all is_ascii s then None
      else Some (PyExc (ExceptionSubclass ''UnicodeEncodeError'')
                   (to_ascii (ascii_codec_message s))))"

section \<open>Properties\<close>

declare decimal.simps [simp del]

subsection \<open>Splitting and joining\<close>

lemma split_sep_nonempty: "split_sep c s \<noteq> []"
  by (induction s) (auto split: list.splits)

lemma split_sep_no_sep: "w \<in> set (split_sep c s) \<Longrightarrow> c \<notin> set w"
proof (induction s arbitrary: w)
  case Nil
  then show ?case by simp
next
  case (Cons x xs)
  show ?case
  proof (cases "x = c")
    case True
    with Cons show ?thesis by auto
  next
    case False
    obtain v vs where "split_sep c xs = v # vs"
      using split_sep_nonempty [of c xs] by (cases "split_sep c xs") auto
    with Cons False show ?thesis by auto
  qed
qed

lemma split_sep_append: "c \<notin> set w \<Longrightarrow> split_sep c (w @ c # s) = w # split_sep c s"
  by (induction w) auto

lemma split_sep_single: "c \<notin> set w \<Longrightarrow> split_sep c w = [w]"
  by (induction w) auto

lemma split_join:
  "ws \<noteq> [] \<Longrightarrow> list_all (\<lambda>w. c \<notin> set w) ws \<Longrightarrow> split_sep c (join_sep [c] ws) = ws"
proof (induction "[c]" ws rule: join_sep.induct)
  case 1
  then show ?case by simp
next
  case (2 w)
  then show ?case by (simp add: split_sep_single)
next
  case (3 w v ws)
  then show ?case by (simp add: split_sep_append)
qed

lemma join_sep_Cons_hd: "w \<noteq> [] \<Longrightarrow> \<exists>rest. join_sep s (w # ws) = hd w # rest"
  by (cases w; cases ws) auto

lemma join_sep_Cons: "join_sep s (w # ws) = w @ concat (map ((@) s) ws)"
  by (induction s "w # ws" arbitrary: w ws rule: join_sep.induct) auto

subsection \<open>Paths read back as they were written\<close>

lemma splitroot_cases: "splitroot s = (r, rel) \<Longrightarrow> r = [] \<or> r = ''/'' \<or> r = ''//''"
  by (auto simp: splitroot_def split: if_splits)

lemma wf_Path: "wf_path (Path s)"
proof -
  obtain r rel where sr: "splitroot s = (r, rel)"
    by (cases "splitroot s")
  have "list_all name_ok (filter (\<lambda>x. x \<noteq> [] \<and> x \<noteq> ''.'') (split_sep CHR ''/'' rel))"
    by (auto simp: list_all_iff name_ok_def dest: split_sep_no_sep)
  with sr splitroot_cases [OF sr] show ?thesis
    by (simp add: wf_path_def Path_def)
qed

lemma wf_parent: "wf_path p \<Longrightarrow> wf_path (parent p)"
  by (auto simp: wf_path_def parent_def list_all_iff dest: in_set_butlastD)

lemma wf_truediv_embed: "wf_path p \<Longrightarrow> wf_path (truediv p ''embed_html.py'')"
  by (simp add: wf_path_def truediv_def Path_def splitroot_def name_ok_def)

lemma Path_rel:
  assumes "ws \<noteq> []" and "list_all name_ok ws"
  shows "filter (\<lambda>x. x \<noteq> [] \<and> x \<noteq> ''.'') (split_sep CHR ''/'' (join_sep ''/'' ws)) = ws"
proof -
  have "list_all (\<lambda>w. CHR ''/'' \<notin> set w) ws"
    using assms(2) by (simp add: list_all_iff name_ok_def)
  then have "split_sep CHR ''/'' (join_sep ''/'' ws) = ws"
    using assms(1) split_join [of ws "CHR ''/''"] by simp
  moreover have "filter (\<lambda>x. x \<noteq> [] \<and> x \<noteq> ''.'') ws = ws"
    using assms(2) by (simp add: list_all_iff filter_id_conv name_ok_def)
  ultimately show ?thesis by simp
qed

lemma Path_str_path:
  assumes "wf_path p"
  shows "Path (str_path p) = p"
proof (cases "tail p")
  case Nil
  with assms show ?thesis
    by (auto simp: wf_path_def str_path_def Path_def splitroot_def)
next
  case (Cons w ws)
  from assms Cons have ok: "list_all name_ok (w # ws)"
    by (simp add: wf_path_def)
  then have w: "w \<noteq> []" "CHR ''/'' \<notin> set w"
    by (simp_all add: name_ok_def)
  then obtain rest where j: "join_sep ''/'' (w # ws) = hd w # rest"
    using join_sep_Cons_hd by blast
  from w have h: "hd w \<noteq> CHR ''/''"
    by (cases w) auto
  have rel: "filter (\<lambda>x. x \<noteq> [] \<and> x \<noteq> ''.'')
               (split_sep CHR ''/'' (join_sep ''/'' (w # ws))) = w # ws"
    using Path_rel [OF _ ok] by simp
  have sr: "splitroot (anchor p @ join_sep ''/'' (w # ws)) = (anchor p, join_sep ''/'' (w # ws))"
    using assms h by (auto simp: wf_path_def splitroot_def j)
  show ?thesis
    using Cons sr rel by (simp add: str_path_def Path_def)
qed

lemma parent_truediv_embed: "parent (truediv d ''embed_html.py'') = d"
  by (simp add: parent_def truediv_def Path_def splitroot_def)

lemma tail_truediv_embed: "tail (truediv d ''embed_html.py'') = tail d @ [''embed_html.py'']"
  by (simp add: truediv_def Path_def splitroot_def)

subsection \<open>Texts that always print\<close>

lemma text_of_ascii: "list_all is_ascii (text_of t)"
  by transfer simp

lemma text_of_to_ascii: "list_all is_ascii s \<Longrightarrow> text_of (to_ascii s) = s"
  by transfer (simp add: list_all_iff filter_id_conv)

lemma print_ascii: "list_all is_ascii s \<Longrightarrow> py_print con s tr = (Inr (), tr @ [Print s])"
  by (simp add: py_print_def print_raises_def)

lemma print_banner:
  "py_print con ''Running HTML embedding script...'' tr =
     (Inr (), tr @ [Print ''Running HTML embedding script...''])"
  by (rule print_ascii) (simp add: is_ascii_def)

lemma print_failed:
  "py_print con (''Failed to run HTML embedding script: '' @ str_e e) tr =
     (Inr (), tr @ [Print (''Failed to run HTML embedding script: '' @ str_e e)])"
proof (rule print_ascii)
  have "list_all is_ascii ''Failed to run HTML embedding script: ''"
    by (simp add: is_ascii_def)
  then show "list_all is_ascii (''Failed to run HTML embedding script: '' @ str_e e)"
    using text_of_ascii [of "exc_text e"] by (simp only: list_all_append str_e_def simp_thms)
qed

subsection \<open>The callback, branch by branch\<close>

lemma callback_unbound:
  "embed_html_callback args kwargs None run con tr =
     (Inl NameError_file, tr @ [Print ''Running HTML embedding script...''])"
  by (simp add: embed_html_callback_def print_banner)

lemma handler_cases:
  "except_Exception con (Inl e, tr) =
     (if isinstance_Exception e
      then (Inr (), tr @ [Print (''Failed to run HTML embedding script: '' @ str_e e)])
      else (Inl e, tr))"
  "except_Exception con (Inr u, tr) = (Inr u, tr)"
  by (simp_all only: except_Exception_def prod.case sum.case print_failed)

lemma callback_bound:
  "embed_html_callback args kwargs (Some f) run con tr =
     except_Exception con
       (run_and_report run con (embed_cmd f) (embed_cwd f)
          (tr @ [Print ''Running HTML embedding script...'']))"
  by (simp add: embed_html_callback_def print_banner Let_def embed_cmd_def embed_cwd_def)

lemma callback_cases:
  "embed_html_callback args kwargs (Some f) run con tr =
     (case run (embed_cmd f) (embed_cwd f) of
        CompletedProcess rc out err \<Rightarrow>
          (case print_raises con
                  (if rc = 0 then out else ''Error running embed script: '' @ err) of
             None \<Rightarrow>
               (Inr (),
                tr @ [Print ''Running HTML embedding script...'',
                      SubprocessRun (embed_cmd f) True True (embed_cwd f),
                      Print (if rc = 0 then out else ''Error running embed script: '' @ err)])
           | Some e \<Rightarrow>
               (if isinstance_Exception e
                then (Inr (),
                      tr @ [Print ''Running HTML embedding script...'',
                            SubprocessRun (embed_cmd f) True True (embed_cwd f),
                            Print (''Failed to run HTML embedding script: '' @ str_e e)])
                else (Inl e,
                      tr @ [Print ''Running HTML embedding script...'',
                            SubprocessRun (embed_cmd f) True True (embed_cwd f)])))
      | RunRaises e \<Rightarrow>
          (if isinstance_Exception e
           then (Inr (),
                 tr @ [Print ''Running HTML embedding script...'',
                       SubprocessRun (embed_cmd f) True True (embed_cwd f),
                       Print (''Failed to run HTML embedding script: '' @ str_e e)])
           else (Inl e,
                 tr @ [Print ''Running HTML embedding script...'',
                       SubprocessRun (embed_cmd f) True True (embed_cwd f)])))"
  by (simp add: callback_bound Let_def run_and_report_def py_print_def handler_cases
      split: run_result.split option.split)

lemma embed_cmd_this_file:
  "embed_cmd this_file = [''python3'', ''/home/dev/WiFiProvisioner/scripts/embed_html.py'']"
  by (simp add: embed_cmd_def this_file_def Path_def splitroot_def parent_def truediv_def
        str_path_def)

lemma embed_cwd_this_file: "embed_cwd this_file = ''/home/dev/WiFiProvisioner''"
  by (simp add: embed_cwd_def this_file_def Path_def splitroot_def parent_def str_path_def)

lemma emitted_unbound:
  "emitted tr (embed_html_callback args kwargs None run con tr) =
     [Print ''Running HTML embedding script...'']"
  by (simp add: emitted_def callback_unbound)

lemma emitted_bound:
  "\<exists>rest. emitted tr (embed_html_callback args kwargs (Some f) run con tr) =
            [Print ''Running HTML embedding script...'',
             SubprocessRun (embed_cmd f) True True (embed_cwd f)] @ rest \<and>
          length rest \<le> 1 \<and> filter is_run rest = []"
  by (simp add: emitted_def callback_cases split: run_result.split option.split)

lemma trace_extended:
  "snd (embed_html_callback args kwargs file run con tr) =
     tr @ emitted tr (embed_html_callback args kwargs file run con tr)"
proof (cases "file")
  case None
  then show ?thesis
    by (simp add: emitted_def callback_unbound)
next
  case (Some f)
  then show ?thesis
    by (simp add: emitted_def callback_cases split: run_result.split option.split)
qed

subsection \<open>A bound \<^verbatim>\<open>__file__\<close>: one launch, and where\<close>

lemma launches_once_when_bound:
  "filter is_run (emitted tr (embed_html_callback args kwargs (Some f) run con tr)) =
     [SubprocessRun (embed_cmd f) True True (embed_cwd f)]"
  by (simp add: emitted_def callback_cases split: run_result.split option.split)

text \<open>
  For an absolute, normalised \<^verbatim>\<open>__file__\<close>, written as a slash before each of its
  components: the working directory is the file's path without its last two components,
  and the script run is the file's path with the last component replaced by
  \<^verbatim>\<open>embed_html.py\<close>.
\<close>

lemma concat_slash: "ws \<noteq> [] \<Longrightarrow> concat (map ((@) ''/'') ws) = ''/'' @ join_sep ''/'' ws"
  by (cases ws) (simp_all add: join_sep_Cons)

lemma Path_absolute:
  assumes "ws \<noteq> []" and "list_all name_ok ws"
  shows "Path (concat (map ((@) ''/'') ws)) = \<lparr>anchor = ''/'', tail = ws\<rparr>"
proof -
  have "wf_path \<lparr>anchor = ''/'', tail = ws\<rparr>"
    using assms(2) by (simp add: wf_path_def)
  then have "Path (str_path \<lparr>anchor = ''/'', tail = ws\<rparr>) = \<lparr>anchor = ''/'', tail = ws\<rparr>"
    by (rule Path_str_path)
  moreover have "str_path \<lparr>anchor = ''/'', tail = ws\<rparr> = concat (map ((@) ''/'') ws)"
    using assms(1) by (simp add: str_path_def concat_slash)
  ultimately show ?thesis
    by simp
qed

lemma embed_cwd_absolute:
  assumes "list_all name_ok cs" and "name_ok s" and "name_ok n"
  shows "embed_cwd (concat (map ((@) ''/'') (cs @ [s, n]))) =
           (if cs = [] then ''/'' else concat (map ((@) ''/'') cs))"
proof -
  have "Path (concat (map ((@) ''/'') (cs @ [s, n]))) = \<lparr>anchor = ''/'', tail = cs @ [s, n]\<rparr>"
    using assms by (intro Path_absolute) simp_all
  moreover have "butlast (cs @ [s, n]) = cs @ [s]"
    by (simp add: butlast_append)
  ultimately have "parent (parent (Path (concat (map ((@) ''/'') (cs @ [s, n]))))) =
                     \<lparr>anchor = ''/'', tail = cs\<rparr>"
    by (simp add: parent_def)
  then show ?thesis
    by (simp add: embed_cwd_def str_path_def concat_slash)
qed

lemma embed_cmd_absolute:
  assumes "list_all name_ok ds" and "name_ok n"
  shows "embed_cmd (concat (map ((@) ''/'') (ds @ [n]))) =
           [''python3'', concat (map ((@) ''/'') (ds @ [''embed_html.py'']))]"
proof -
  have "Path (concat (map ((@) ''/'') (ds @ [n]))) = \<lparr>anchor = ''/'', tail = ds @ [n]\<rparr>"
    using assms by (intro Path_absolute) simp_all
  then have "truediv (parent (Path (concat (map ((@) ''/'') (ds @ [n]))))) ''embed_html.py'' =
               \<lparr>anchor = ''/'', tail = ds @ [''embed_html.py'']\<rparr>"
    by (simp add: parent_def truediv_def Path_def splitroot_def)
  moreover have "str_path \<lparr>anchor = ''/'', tail = ds @ [''embed_html.py'']\<rparr> =
                   concat (map ((@) ''/'') (ds @ [''embed_html.py'']))"
    using concat_slash [of "ds @ [''embed_html.py'']"] by (simp add: str_path_def)
  ultimately show ?thesis
    by (simp add: embed_cmd_def)
qed

subsection \<open>The fixtures, evaluated\<close>

lemma str_e_to_ascii: "list_all is_ascii s \<Longrightarrow> str_e (PyExc c (to_ascii s)) = s"
  by (simp add: str_e_def text_of_to_ascii)


lemma accent_not_ascii: "\<not> list_all is_ascii (pre @ [CHR ''c'', CHR ''a'', CHR ''f'', CHR 0xE9])"
  by (simp add: is_ascii_def)

lemma message_stdout_accent:
  "ascii_codec_message [CHR ''c'', CHR ''a'', CHR ''f'', CHR 0xE9] =
     CHR 0x27 # ''ascii' codec can't encode character '' @ [CHR 0x27, CHR 0x5C] @
     ''xe9' in position 3: ordinal not in range(128)''"
  by (simp add: ascii_codec_message_def is_ascii_def hex2_def digit_char_def decimal.simps)

lemma message_stderr_accent:
  "ascii_codec_message
     (''Error running embed script: '' @ [CHR ''c'', CHR ''a'', CHR ''f'', CHR 0xE9]) =
     CHR 0x27 # ''ascii' codec can't encode character '' @ [CHR 0x27, CHR 0x5C] @
     ''xe9' in position 31: ordinal not in range(128)''"
  by (simp add: ascii_codec_message_def is_ascii_def hex2_def digit_char_def decimal.simps)

lemma str_e_stdout_accent:
  "str_e (PyExc c (to_ascii (ascii_codec_message [CHR ''c'', CHR ''a'', CHR ''f'', CHR 0xE9]))) =
     CHR 0x27 # ''ascii' codec can't encode character '' @ [CHR 0x27, CHR 0x5C] @
     ''xe9' in position 3: ordinal not in range(128)''"
  unfolding message_stdout_accent by (rule str_e_to_ascii) (simp add: is_ascii_def)

lemma str_e_stderr_accent:
  "str_e (PyExc c (to_ascii (ascii_codec_message
       (''Error running embed script: '' @ [CHR ''c'', CHR ''a'', CHR ''f'', CHR 0xE9])))) =
     CHR 0x27 # ''ascii' codec can't encode character '' @ [CHR 0x27, CHR 0x5C] @
     ''xe9' in position 31: ordinal not in range(128)''"
  unfolding message_stderr_accent by (rule str_e_to_ascii) (simp add: is_ascii_def)

lemma callback_stdout_accent:
  "embed_html_callback args kwargs (Some this_file) run_ok_accent console_ascii [] =
     (Inr (),
      [Print ''Running HTML embedding script...'',
       SubprocessRun [''python3'', ''/home/dev/WiFiProvisioner/scripts/embed_html.py'']
         True True ''/home/dev/WiFiProvisioner'',
       Print (''Failed to run HTML embedding script: '' @
              CHR 0x27 # ''ascii' codec can't encode character '' @ [CHR 0x27, CHR 0x5C] @
              ''xe9' in position 3: ordinal not in range(128)'')])"
proof -
  have "print_raises console_ascii [CHR ''c'', CHR ''a'', CHR ''f'', CHR 0xE9] =
          Some (PyExc (ExceptionSubclass ''UnicodeEncodeError'')
                  (to_ascii (ascii_codec_message [CHR ''c'', CHR ''a'', CHR ''f'', CHR 0xE9])))"
    using accent_not_ascii [of "[]"] by (simp add: print_raises_def console_ascii_def)
  then show ?thesis
    by (simp add: callback_cases run_ok_accent_def str_e_stdout_accent embed_cmd_this_file
          embed_cwd_this_file)
qed

lemma callback_stderr_accent:
  "embed_html_callback args kwargs (Some this_file) run_bad_accent console_ascii [] =
     (Inr (),
      [Print ''Running HTML embedding script...'',
       SubprocessRun [''python3'', ''/home/dev/WiFiProvisioner/scripts/embed_html.py'']
         True True ''/home/dev/WiFiProvisioner'',
       Print (''Failed to run HTML embedding script: '' @
              CHR 0x27 # ''ascii' codec can't encode character '' @ [CHR 0x27, CHR 0x5C] @
              ''xe9' in position 31: ordinal not in range(128)'')])"
proof -
  have "print_raises console_ascii
          (''Error running embed script: '' @ [CHR ''c'', CHR ''a'', CHR ''f'', CHR 0xE9]) =
          Some (PyExc (ExceptionSubclass ''UnicodeEncodeError'')
                  (to_ascii (ascii_codec_message
                     (''Error running embed script: '' @
                      [CHR ''c'', CHR ''a'', CHR ''f'', CHR 0xE9]))))"
    using accent_not_ascii [of "''Error running embed script: ''"]
    by (simp only: print_raises_def console_ascii_def if_False)
  then show ?thesis
    using str_e_stderr_accent [of "ExceptionSubclass ''UnicodeEncodeError''"]
    by (simp add: callback_cases run_bad_accent_def embed_cmd_this_file embed_cwd_this_file)
qed

section \<open>The claims\<close>

subsection \<open>What is printed in each branch\<close>

text \<open>
  C3, as stated, fails: the print of the child's output stands inside the \<^verbatim>\<open>try\<close>.
  With exit code 0 and a standard output the console cannot encode, \<^verbatim>\<open>print\<close> raises
  \<^verbatim>\<open>UnicodeEncodeError\<close>, the handler takes it, and the line printed is the failure
  message; the output itself never reaches the log.
\<close>

theorem zero_exit_unencodable_stdout_counterexample:
  "run_ok_accent (embed_cmd this_file) (embed_cwd this_file) =
     CompletedProcess 0 [CHR ''c'', CHR ''a'', CHR ''f'', CHR 0xE9] [] \<and>
   Print [CHR ''c'', CHR ''a'', CHR ''f'', CHR 0xE9]
     \<notin> set (snd (embed_html_callback ([] :: unit list) [] (Some this_file)
                     run_ok_accent console_ascii [])) \<and>
   Print (''Failed to run HTML embedding script: '' @
          CHR 0x27 # ''ascii' codec can't encode character '' @ [CHR 0x27, CHR 0x5C] @
          ''xe9' in position 3: ordinal not in range(128)'')
     \<in> set (snd (embed_html_callback ([] :: unit list) [] (Some this_file)
                     run_ok_accent console_ascii []))"
  by (simp add: callback_stdout_accent run_ok_accent_def)

text \<open>
  C3, amended. When the child process exits with code 0 and captured standard output
  \<open>s\<close>, and the console can print \<open>s\<close>, the callback prints the banner, runs the child,
  prints \<open>s\<close> itself, and returns without raising.
\<close>

theorem zero_exit_prints_stdout:
  assumes "run (embed_cmd f) (embed_cwd f) = CompletedProcess 0 s err"
    and "print_raises con s = None"
  shows "embed_html_callback args kwargs (Some f) run con tr =
           (Inr (),
            tr @ [Print ''Running HTML embedding script...'',
                  SubprocessRun (embed_cmd f) True True (embed_cwd f),
                  Print s])"
  using assms by (simp add: callback_cases)

text \<open>C3, amended, at a child that exits with 0 and wrote \<^verbatim>\<open>ok\<close>, on the ASCII console.\<close>

theorem zero_exit_prints_stdout_witness:
  "run_ok (embed_cmd this_file) (embed_cwd this_file) = CompletedProcess 0 ''ok'' [] \<and>
   print_raises console_ascii ''ok'' = None \<and>
   embed_html_callback ([] :: unit list) [] (Some this_file) run_ok console_ascii [] =
     (Inr (),
      [Print ''Running HTML embedding script...'',
       SubprocessRun [''python3'', ''/home/dev/WiFiProvisioner/scripts/embed_html.py'']
         True True ''/home/dev/WiFiProvisioner'',
       Print ''ok''])"
proof -
  have h: "run_ok (embed_cmd this_file) (embed_cwd this_file) = CompletedProcess 0 ''ok'' []"
    by (simp add: run_ok_def)
  have c: "print_raises console_ascii ''ok'' = None"
    by (simp add: print_raises_def is_ascii_def)
  show ?thesis
    using h c zero_exit_prints_stdout
      [of run_ok this_file "''ok''" "[]" console_ascii "[] :: unit list" "[]" "[]"]
    by (simp add: embed_cmd_this_file embed_cwd_this_file)
qed

text \<open>
  C1, as stated, fails twice. With exit code 1 and captured standard error \<^verbatim>\<open>bad\<close> no
  call of \<^verbatim>\<open>print\<close> has the text \<^verbatim>\<open>bad\<close>: the line printed is
  \<^verbatim>\<open>Error running embed script: bad\<close>. And with a standard error the console cannot
  encode, that print, which stands inside the \<^verbatim>\<open>try\<close>, raises, and the line printed
  is the failure message of the handler.
\<close>

theorem nonzero_exit_bare_stderr_counterexample:
  "run_bad (embed_cmd this_file) (embed_cwd this_file) = CompletedProcess 1 [] ''bad'' \<and>
   Print ''bad''
     \<notin> set (snd (embed_html_callback ([] :: unit list) [] (Some this_file)
                     run_bad console_utf8 [])) \<and>
   Print ''Error running embed script: bad''
     \<in> set (snd (embed_html_callback ([] :: unit list) [] (Some this_file)
                     run_bad console_utf8 [])) \<and>
   run_bad_accent (embed_cmd this_file) (embed_cwd this_file) =
     CompletedProcess 1 [] [CHR ''c'', CHR ''a'', CHR ''f'', CHR 0xE9] \<and>
   Print (''Error running embed script: '' @ [CHR ''c'', CHR ''a'', CHR ''f'', CHR 0xE9])
     \<notin> set (snd (embed_html_callback ([] :: unit list) [] (Some this_file)
                     run_bad_accent console_ascii [])) \<and>
   Print (''Failed to run HTML embedding script: '' @
          CHR 0x27 # ''ascii' codec can't encode character '' @ [CHR 0x27, CHR 0x5C] @
          ''xe9' in position 31: ordinal not in range(128)'')
     \<in> set (snd (embed_html_callback ([] :: unit list) [] (Some this_file)
                     run_bad_accent console_ascii []))"
proof -
  have "print_raises console_utf8 ''Error running embed script: bad'' = None"
    by (simp add: print_raises_def console_utf8_def)
  then have
    "snd (embed_html_callback ([] :: unit list) [] (Some this_file) run_bad console_utf8 []) =
       [Print ''Running HTML embedding script...'',
        SubprocessRun (embed_cmd this_file) True True (embed_cwd this_file),
        Print ''Error running embed script: bad'']"
    by (simp add: callback_cases run_bad_def)
  then show ?thesis
    by (simp add: callback_stderr_accent run_bad_def run_bad_accent_def)
qed

text \<open>
  C1, amended. When the child process exits with a code other than 0 and captured
  standard error \<open>err\<close>, and the console can print the line, the callback prints the
  banner, runs the child, prints the one line made of the fixed text
  \<^verbatim>\<open>Error running embed script: \<close> followed by \<open>err\<close> unchanged, and returns normally:
  no failure reaches the build.
\<close>

theorem nonzero_exit_prints_prefixed_stderr:
  assumes "run (embed_cmd f) (embed_cwd f) = CompletedProcess rc out err"
    and "rc \<noteq> 0"
    and "print_raises con (''Error running embed script: '' @ err) = None"
  shows "embed_html_callback args kwargs (Some f) run con tr =
           (Inr (),
            tr @ [Print ''Running HTML embedding script...'',
                  SubprocessRun (embed_cmd f) True True (embed_cwd f),
                  Print (''Error running embed script: '' @ err)])"
  using assms by (simp add: callback_cases)

text \<open>
  C1, amended, at a child that exits with 1 and wrote \<^verbatim>\<open>bad\<close> to standard error, on
  the ASCII console.
\<close>

theorem nonzero_exit_prints_prefixed_stderr_witness:
  "run_bad (embed_cmd this_file) (embed_cwd this_file) = CompletedProcess 1 [] ''bad'' \<and>
   (1 :: int) \<noteq> 0 \<and>
   print_raises console_ascii (''Error running embed script: '' @ ''bad'') = None \<and>
   embed_html_callback ([] :: unit list) [] (Some this_file) run_bad console_ascii [] =
     (Inr (),
      [Print ''Running HTML embedding script...'',
       SubprocessRun [''python3'', ''/home/dev/WiFiProvisioner/scripts/embed_html.py'']
         True True ''/home/dev/WiFiProvisioner'',
       Print ''Error running embed script: bad''])"
proof -
  have h: "run_bad (embed_cmd this_file) (embed_cwd this_file) = CompletedProcess 1 [] ''bad''"
    by (simp add: run_bad_def)
  have n: "(1 :: int) \<noteq> 0"
    by simp
  have c: "print_raises console_ascii (''Error running embed script: '' @ ''bad'') = None"
    by (simp add: print_raises_def is_ascii_def)
  show ?thesis
    using h n c nonzero_exit_prints_prefixed_stderr
      [of run_bad this_file 1 "[]" "''bad''" console_ascii "[] :: unit list" "[]" "[]"]
    by (simp add: embed_cmd_this_file embed_cwd_this_file)
qed




subsection \<open>Registration\<close>

text \<open>
  C4. Evaluating the build script registers the callback exactly once, as an action to
  run before the target \<^verbatim>\<open>buildprog\<close>: the list of pre-actions grows by that one entry,
  the post-actions stay as they were, and nothing is printed or run meanwhile.
\<close>

theorem registered_once_as_buildprog_pre_action:
  "pre_actions (fst (build_extra (env, tr))) =
     pre_actions env @ [(''buildprog'', embed_html_callback)] \<and>
   post_actions (fst (build_extra (env, tr))) = post_actions env \<and>
   snd (build_extra (env, tr)) = tr"
  by (simp add: build_extra_def AddPreAction_def)

subsection \<open>Where the child process runs and what it runs\<close>

text \<open>
  C5 holds of the callback only where \<^verbatim>\<open>__file__\<close> is bound. Line 17 reads the global
  before the \<^verbatim>\<open>try\<close>; run by the build tool, which executes the script without that
  global, the callback raises \<^verbatim>\<open>NameError\<close> after the banner: no directory is computed
  and no child is launched. With \<^verbatim>\<open>__file__\<close> bound to the script's location the one
  launch has the directory two levels up as its working directory.
\<close>

theorem unbound_file_no_working_directory:
  "embed_html_callback ([] :: unit list) [] None run_ok console_utf8 [] =
     (Inl NameError_file, [Print ''Running HTML embedding script...'']) \<and>
   str_e NameError_file = ''name '__file__' is not defined'' \<and>
   map cwd (filter is_run
     (snd (embed_html_callback ([] :: unit list) [] None run_ok console_utf8 []))) = [] \<and>
   map cwd (filter is_run
     (snd (embed_html_callback ([] :: unit list) [] (Some this_file) run_ok console_utf8 []))) =
     [''/home/dev/WiFiProvisioner'']"
proof -
  have "str_e NameError_file = ''name '__file__' is not defined''"
    unfolding NameError_file_def by (rule str_e_to_ascii) (simp add: is_ascii_def)
  moreover have "map cwd (filter is_run
      (snd (embed_html_callback ([] :: unit list) [] (Some this_file) run_ok console_utf8 []))) =
      [''/home/dev/WiFiProvisioner'']"
    using launches_once_when_bound [of "[]" "[] :: unit list" "[]" this_file run_ok console_utf8]
    by (simp add: emitted_def embed_cwd_this_file)
  ultimately show ?thesis
    by (simp add: callback_unbound)
qed

text \<open>
  C6 holds of the callback only where \<^verbatim>\<open>__file__\<close> is bound. Run by the build tool,
  the callback raises \<^verbatim>\<open>NameError\<close> on line 17 and builds no command. With
  \<^verbatim>\<open>__file__\<close> bound to the script's location the command is \<^verbatim>\<open>python3\<close> on the
  file \<^verbatim>\<open>embed_html.py\<close> in the script's own directory.
\<close>

theorem unbound_file_no_command:
  "fst (embed_html_callback ([] :: unit list) [] None run_ok console_utf8 []) =
     Inl NameError_file \<and>
   map run_args (filter is_run
     (snd (embed_html_callback ([] :: unit list) [] None run_ok console_utf8 []))) = [] \<and>
   map run_args (filter is_run
     (snd (embed_html_callback ([] :: unit list) [] (Some this_file) run_ok console_utf8 []))) =
     [[''python3'', ''/home/dev/WiFiProvisioner/scripts/embed_html.py'']]"
proof -
  have "map run_args (filter is_run
      (snd (embed_html_callback ([] :: unit list) [] (Some this_file) run_ok console_utf8 []))) =
      [[''python3'', ''/home/dev/WiFiProvisioner/scripts/embed_html.py'']]"
    using launches_once_when_bound [of "[]" "[] :: unit list" "[]" this_file run_ok console_utf8]
    by (simp add: emitted_def embed_cmd_this_file)
  then show ?thesis
    by (simp add: callback_unbound)
qed

subsection \<open>One linear action\<close>

text \<open>
  C7 holds of the callback only where \<^verbatim>\<open>__file__\<close> is bound: there the invocation
  calls \<^verbatim>\<open>subprocess.run\<close> exactly once. Run by the build tool, the callback raises
  \<^verbatim>\<open>NameError\<close> on line 17, launches nothing, and the exception reaches the build.
\<close>

theorem unbound_file_launches_nothing:
  "fst (embed_html_callback ([] :: unit list) [] None run_ok console_utf8 []) =
     Inl NameError_file \<and>
   isinstance_Exception NameError_file \<and>
   length (filter is_run
     (snd (embed_html_callback ([] :: unit list) [] None run_ok console_utf8 []))) = 0 \<and>
   length (filter is_run
     (snd (embed_html_callback ([] :: unit list) [] (Some this_file) run_ok console_utf8 []))) = 1"
proof -
  have "length (filter is_run
      (snd (embed_html_callback ([] :: unit list) [] (Some this_file) run_ok console_utf8 []))) = 1"
    using launches_once_when_bound [of "[]" "[] :: unit list" "[]" this_file run_ok console_utf8]
    by (simp add: emitted_def)
  then show ?thesis
    by (simp add: callback_unbound NameError_file_def)
qed

text \<open>
  C8. In every branch (success, non-zero exit, an exception at launch or at a print,
  caught or not, and an unbound \<^verbatim>\<open>__file__\<close>) the first effect of an invocation is
  printing \<^verbatim>\<open>Running HTML embedding script...\<close>; all other output comes after it.
\<close>

theorem banner_printed_first:
  "take 1 (emitted tr (embed_html_callback args kwargs file run con tr)) =
     [Print ''Running HTML embedding script...''] \<and>
   snd (embed_html_callback args kwargs file run con tr) =
     tr @ emitted tr (embed_html_callback args kwargs file run con tr)"
proof -
  have "take 1 (emitted tr (embed_html_callback args kwargs file run con tr)) =
          [Print ''Running HTML embedding script...'']"
  proof (cases "file")
    case None
    then show ?thesis
      by (simp add: emitted_unbound)
  next
    case (Some f)
    then show ?thesis
      using emitted_bound [of tr args kwargs f run con] by auto
  qed
  then show ?thesis
    using trace_extended [of args kwargs "file" run con tr] by simp
qed

subsection \<open>What the result does not depend on\<close>

text \<open>
  C9. At most one captured stream is forwarded. When the exit code is zero the captured
  standard error is never printed: two children that differ in it alone leave the same
  trace and result. When the exit code is not zero the captured standard output is never
  printed: two children that differ in it alone leave the same trace and result.
\<close>

theorem other_stream_not_forwarded:
  "(p (embed_cmd f) (embed_cwd f) = CompletedProcess 0 out e1 \<and>
    q (embed_cmd f) (embed_cwd f) = CompletedProcess 0 out e2 \<longrightarrow>
      embed_html_callback args kwargs (Some f) p con tr =
        embed_html_callback args kwargs (Some f) q con tr) \<and>
   (rc \<noteq> 0 \<and>
    r (embed_cmd f) (embed_cwd f) = CompletedProcess rc o1 err \<and>
    s (embed_cmd f) (embed_cwd f) = CompletedProcess rc o2 err \<longrightarrow>
      embed_html_callback args kwargs (Some f) r con tr =
        embed_html_callback args kwargs (Some f) s con tr)"
  by (simp add: callback_cases)

text \<open>
  C9 at two successful children, one of them with warnings on standard error, and at two
  failing children, one of them with partial standard output.
\<close>

theorem other_stream_not_forwarded_witness:
  "run_ok (embed_cmd this_file) (embed_cwd this_file) = CompletedProcess 0 ''ok'' [] \<and>
   run_ok_noisy (embed_cmd this_file) (embed_cwd this_file) =
     CompletedProcess 0 ''ok'' ''warning'' \<and>
   embed_html_callback ([] :: unit list) [] (Some this_file) run_ok console_ascii [] =
     embed_html_callback ([] :: unit list) [] (Some this_file) run_ok_noisy console_ascii [] \<and>
   (1 :: int) \<noteq> 0 \<and>
   run_bad (embed_cmd this_file) (embed_cwd this_file) = CompletedProcess 1 [] ''bad'' \<and>
   run_bad_chatty (embed_cmd this_file) (embed_cwd this_file) =
     CompletedProcess 1 ''partial'' ''bad'' \<and>
   embed_html_callback ([] :: unit list) [] (Some this_file) run_bad console_ascii [] =
     embed_html_callback ([] :: unit list) [] (Some this_file) run_bad_chatty console_ascii []"
  using other_stream_not_forwarded
    [of run_ok this_file "''ok''" "[]" run_ok_noisy "''warning''" "[] :: unit list" "[]"
        console_ascii "[]" 1 run_bad "[]" "''bad''" run_bad_chatty "''partial''"]
  by (simp add: run_ok_def run_ok_noisy_def run_bad_def run_bad_chatty_def)

text \<open>
  C10. The arguments are ignored: two invocations with any positional and keyword
  arguments (of any types) whose child processes have the same outcome leave the same
  trace and return the same value; so do two invocations that launch no child because
  \<^verbatim>\<open>__file__\<close> is unbound.
\<close>

theorem arguments_ignored:
  "(p (embed_cmd f) (embed_cwd f) = q (embed_cmd f) (embed_cwd f) \<longrightarrow>
      embed_html_callback (a1 :: 'a list) k1 (Some f) p con tr =
        embed_html_callback (a2 :: 'b list) k2 (Some f) q con tr) \<and>
   embed_html_callback (a1 :: 'a list) k1 None p con tr =
     embed_html_callback (a2 :: 'b list) k2 None q con tr"
  by (simp add: callback_cases callback_unbound)

text \<open>
  C10 at the arguments a build tool might pass against none at all, on two systems that
  agree on the embedding command.
\<close>

theorem arguments_ignored_witness:
  "run_ok (embed_cmd this_file) (embed_cwd this_file) =
     run_only_embed (embed_cmd this_file) (embed_cwd this_file) \<and>
   embed_html_callback [''target'', ''source''] [(''env'', ''scons'')] (Some this_file)
       run_ok console_ascii [] =
     embed_html_callback ([] :: nat list) [] (Some this_file) run_only_embed console_ascii [] \<and>
   embed_html_callback [''target'', ''source''] [(''env'', ''scons'')] None
       run_ok console_ascii [] =
     embed_html_callback ([] :: nat list) [] None run_only_embed console_ascii []"
proof -
  have h: "run_ok (embed_cmd this_file) (embed_cwd this_file) =
             run_only_embed (embed_cmd this_file) (embed_cwd this_file)"
    by (simp add: run_ok_def run_only_embed_def embed_cmd_this_file embed_cwd_this_file)
  show ?thesis
    using h arguments_ignored
      [of run_ok this_file run_only_embed "[''target'', ''source'']" "[(''env'', ''scons'')]"
          console_ascii "[]" "[] :: nat list" "[]"]
    by simp
qed

end
